theory Spec2Isabelle
  imports Complex_Main
begin

section \<open>The research assistant page: data model\<close>

text \<open>
  The program is one Streamlit script, \<^verbatim>\<open>AI_Assistant_App.py\<close>. It reads widget values,
  builds two agents and two tasks for the CrewAI engine, submits them and renders the
  answer. Python strings are modelled as \<^typ>\<open>string\<close>; the two emoji of the source
  are written as their UTF-8 bytes. An f-string field \<^verbatim>\<open>{x}\<close> of a string \<open>x\<close> is \<open>x\<close>.
\<close>

text \<open>
  A raised Python \<^verbatim>\<open>Exception\<close>; the text is what \<^verbatim>\<open>str(e)\<close> returns. The calls into
  the external libraries are the only places of the script that raise.
\<close>

datatype exn = Exception (str_of: string)

text \<open>
  The object \<^verbatim>\<open>ChatOpenAI(model=..., temperature=..., openai_api_key=...)\<close> returns.
  \<open>llm_id\<close> is the identity of the Python object.
\<close>

record chat_model =
  llm_id :: nat
  model :: string
  temperature :: rat
  llm_openai_api_key :: string

text \<open>The object \<^verbatim>\<open>SerperDevTool(api_key=...)\<close> returns.\<close>

record search_tool =
  tool_id :: nat
  tool_api_key :: string

text \<open>The keyword arguments of \<^verbatim>\<open>Agent(...)\<close>, lines 38-56.\<close>

record agent =
  role :: string
  goal :: string
  backstory :: string
  verbose :: bool
  memory :: bool
  tools :: "search_tool list"
  agent_llm :: chat_model

text \<open>
  The keyword arguments of \<^verbatim>\<open>Task(...)\<close>, lines 72-86. An argument the source does not
  pass is \<open>None\<close>; \<open>task_context\<close> is the keyword \<^verbatim>\<open>context\<close>.
\<close>

datatype task = MkTask
  (description: string)
  (agent: agent)
  (expected_output: string)
  (async_execution: "bool option")
  (task_context: "task list option")

text \<open>The keyword arguments of \<^verbatim>\<open>Crew(...)\<close>, line 88.\<close>

record crew =
  agents :: "agent list"
  tasks :: "task list"

text \<open>
  The external libraries, as parameters of the model: for each constructor whether it
  raises on its arguments, what \<^verbatim>\<open>crew.kickoff\<close> returns or raises, and the truth value
  and the \<^verbatim>\<open>str\<close> of the engine's result object (type \<open>'r\<close>).
\<close>

record 'r libs =
  ChatOpenAI_raises :: "string \<Rightarrow> rat \<Rightarrow> string \<Rightarrow> exn option"
  SerperDevTool_raises :: "string \<Rightarrow> exn option"
  Agent_raises :: "agent \<Rightarrow> exn option"
  Task_raises :: "task \<Rightarrow> exn option"
  Crew_raises :: "crew \<Rightarrow> exn option"
  kickoff :: "crew \<Rightarrow> (string \<times> string) list \<Rightarrow> exn + 'r"
  truthy :: "'r \<Rightarrow> bool"
  str :: "'r \<Rightarrow> string"

text \<open>
  What lives as long as the server process: the table behind \<^verbatim>\<open>@st.cache_resource\<close>,
  the next fresh object identity, and the submissions made to the engine so far (each
  \<^verbatim>\<open>crew.kickoff\<close> call with its crew and its \<^verbatim>\<open>inputs\<close> dictionary, in order).
\<close>

record process =
  resource_cache :: "(string \<times> string \<times> string) \<rightharpoonup> (chat_model \<times> search_tool)"
  next_id :: nat
  submitted :: "(crew \<times> (string \<times> string) list) list"

text \<open>The module-level variables the widgets of lines 17-26 and 125 set.\<close>

record page =
  openai_api_key :: string
  serper_api_key :: string
  selected_model :: string
  page_include_news :: bool
  page_include_academic :: bool
  page_output_format :: string
  page_topic :: string

text \<open>The Streamlit elements the button handler emits, in the order of the calls.\<close>

datatype element =
    Warning string
  | is_Error: Error string
  | Success string
  | is_Markdown: Markdown string bool
  | Divider
  | Spinner string

record app =
  proc :: process
  rendered :: "element list"

section \<open>Calls into the external libraries\<close>

definition ChatOpenAI ::
  "'r libs \<Rightarrow> string \<Rightarrow> rat \<Rightarrow> string \<Rightarrow> process \<Rightarrow> (exn + chat_model) \<times> process" where
  "ChatOpenAI lib m t k p =
     (case ChatOpenAI_raises lib m t k of
        Some e \<Rightarrow> (Inl e, p)
      | None \<Rightarrow>
          (Inr \<lparr>llm_id = next_id p, model = m, temperature = t, llm_openai_api_key = k\<rparr>,
           p\<lparr>next_id := Suc (next_id p)\<rparr>))"

definition SerperDevTool ::
  "'r libs \<Rightarrow> string \<Rightarrow> process \<Rightarrow> (exn + search_tool) \<times> process" where
  "SerperDevTool lib k p =
     (case SerperDevTool_raises lib k of
        Some e \<Rightarrow> (Inl e, p)
      | None \<Rightarrow>
          (Inr \<lparr>tool_id = next_id p, tool_api_key = k\<rparr>, p\<lparr>next_id := Suc (next_id p)\<rparr>))"

definition Agent :: "'r libs \<Rightarrow> agent \<Rightarrow> exn + agent" where
  "Agent lib a = (case Agent_raises lib a of Some e \<Rightarrow> Inl e | None \<Rightarrow> Inr a)"

definition Task :: "'r libs \<Rightarrow> task \<Rightarrow> exn + task" where
  "Task lib t = (case Task_raises lib t of Some e \<Rightarrow> Inl e | None \<Rightarrow> Inr t)"

definition Crew :: "'r libs \<Rightarrow> agent list \<Rightarrow> task list \<Rightarrow> exn + crew" where
  "Crew lib ags tks =
     (case Crew_raises lib \<lparr>agents = ags, tasks = tks\<rparr> of
        Some e \<Rightarrow> Inl e
      | None \<Rightarrow> Inr \<lparr>agents = ags, tasks = tks\<rparr>)"

definition crew_kickoff ::
  "'r libs \<Rightarrow> crew \<Rightarrow> (string \<times> string) list \<Rightarrow> process \<Rightarrow> (exn + 'r) \<times> process" where
  "crew_kickoff lib c inputs p =
     (kickoff lib c inputs, p\<lparr>submitted := submitted p @ [(c, inputs)]\<rparr>)"

text \<open>
  Modelled from the spec: \<^verbatim>\<open>st.cache_resource\<close>, the Streamlit decorator of line 30,
  is not part of the repository. Following section 4.1 of the specification it keeps the
  value a call returned under the exact argument tuple, returns the kept value on a later
  call with the same tuple without running the function, and never drops an entry. A
  call that raises keeps nothing.
\<close>

definition cache_resource ::
  "(process \<Rightarrow> (exn + chat_model \<times> search_tool) \<times> process) \<Rightarrow>
   string \<times> string \<times> string \<Rightarrow> process \<Rightarrow> (exn + chat_model \<times> search_tool) \<times> process" where
  "cache_resource f key p =
     (case resource_cache p key of
        Some v \<Rightarrow> (Inr v, p)
      | None \<Rightarrow>
          (case f p of
             (Inl e, p1) \<Rightarrow> (Inl e, p1)
           | (Inr v, p1) \<Rightarrow> (Inr v, p1\<lparr>resource_cache := (resource_cache p1)(key \<mapsto> v)\<rparr>)))"

section \<open>The functions of the script\<close>

text \<open>Lines 31-34, the body under the decorator.\<close>

definition initialize_tools_body ::
  "'r libs \<Rightarrow> string \<Rightarrow> string \<Rightarrow> string \<Rightarrow> process \<Rightarrow>
   (exn + chat_model \<times> search_tool) \<times> process" where
  "initialize_tools_body lib api_key search_api_key model_name p =
     (case ChatOpenAI lib model_name (3 / 10) api_key p of
        (Inl e, p1) \<Rightarrow> (Inl e, p1)
      | (Inr llm, p1) \<Rightarrow>
          (case SerperDevTool lib search_api_key p1 of
             (Inl e, p2) \<Rightarrow> (Inl e, p2)
           | (Inr tool, p2) \<Rightarrow> (Inr (llm, tool), p2)))"

text \<open>Lines 30-34: the decorated function.\<close>

definition initialize_tools ::
  "'r libs \<Rightarrow> string \<Rightarrow> string \<Rightarrow> string \<Rightarrow> process \<Rightarrow>
   (exn + chat_model \<times> search_tool) \<times> process" where
  "initialize_tools lib api_key search_api_key model_name =
     cache_resource (initialize_tools_body lib api_key search_api_key model_name)
       (api_key, search_api_key, model_name)"

text \<open>Lines 37-57.\<close>

definition initialize_agents ::
  "'r libs \<Rightarrow> chat_model \<Rightarrow> search_tool \<Rightarrow> exn + agent \<times> agent" where
  "initialize_agents lib llm tool =
     (case Agent lib
        \<lparr>role = ''Research Specialist'',
         goal = ''Conduct fast, accurate research on the given topic'',
         backstory = ''Expert in information gathering and analysis'',
         verbose = True,
         memory = False,
         tools = [tool],
         agent_llm = llm\<rparr> of
        Inl e \<Rightarrow> Inl e
      | Inr research_agent \<Rightarrow>
          (case Agent lib
             \<lparr>role = ''Technical Research Writer'',
              goal = ''Create concise, structured reports'',
              backstory = ''Specialist in clear, precise technical research paper writing'',
              verbose = True,
              memory = False,
              tools = [tool],
              agent_llm = llm\<rparr> of
             Inl e \<Rightarrow> Inl e
           | Inr writer_agent \<Rightarrow> Inr (research_agent, writer_agent)))"

text \<open>Lines 66-70: the local variable \<^verbatim>\<open>research_description\<close> and its two updates.\<close>

definition research_description :: "string \<Rightarrow> bool \<Rightarrow> bool \<Rightarrow> string" where
  "research_description topic include_news include_academic =
     (let d0 = ''Find key information about: '' @ topic;
          d1 = (if include_news then d0 @ '' Include the latest news articles.'' else d0);
          d2 = (if include_academic
                then d1 @ '' Also include research papers and academic sources.''
                else d1)
      in d2)"

text \<open>Lines 72-79: the arguments of the first \<^verbatim>\<open>Task(...)\<close>.\<close>

definition research_task :: "agent \<Rightarrow> string \<Rightarrow> bool \<Rightarrow> bool \<Rightarrow> task" where
  "research_task research_agent topic include_news include_academic =
     MkTask
       (research_description topic include_news include_academic)
       research_agent
       (if include_academic
        then ''Detailed Bullet points of key facts, recent developments, and academic references.''
        else ''Bullet points of key facts and recent developments.'')
       (Some True)
       None"

text \<open>Lines 81-86: the arguments of the second \<^verbatim>\<open>Task(...)\<close>.\<close>

definition writing_task :: "agent \<Rightarrow> task \<Rightarrow> string \<Rightarrow> string \<Rightarrow> task" where
  "writing_task writer_agent rtask topic output_format =
     MkTask
       (''Create structured report on: '' @ topic @ '' in '' @ output_format @ '' format.'')
       writer_agent
       ('' A '' @ output_format @
        '' document with:\<newline>- Introduction\<newline>- Key Findings\<newline>- Recent Developments\<newline>- Future Outlook\<newline>- References'')
       None
       (Some [rtask])"

text \<open>
  Lines 62-92, the body of the \<^verbatim>\<open>try\<close>. The three keys are read from the module-level
  variables, not from the parameters.
\<close>

definition pipeline_body ::
  "'r libs \<Rightarrow> page \<Rightarrow> string \<Rightarrow> bool \<Rightarrow> bool \<Rightarrow> string \<Rightarrow> process \<Rightarrow> (exn + 'r) \<times> process" where
  "pipeline_body lib g topic include_news include_academic output_format p =
     (case initialize_tools lib (openai_api_key g) (serper_api_key g) (selected_model g) p of
        (Inl e, p1) \<Rightarrow> (Inl e, p1)
      | (Inr (llm, tool), p1) \<Rightarrow>
          (case initialize_agents lib llm tool of
             Inl e \<Rightarrow> (Inl e, p1)
           | Inr (research_agent, writer_agent) \<Rightarrow>
               (case Task lib (research_task research_agent topic include_news include_academic) of
                  Inl e \<Rightarrow> (Inl e, p1)
                | Inr rtask \<Rightarrow>
                    (case Task lib (writing_task writer_agent rtask topic output_format) of
                       Inl e \<Rightarrow> (Inl e, p1)
                     | Inr wtask \<Rightarrow>
                         (case Crew lib [research_agent, writer_agent] [rtask, wtask] of
                            Inl e \<Rightarrow> (Inl e, p1)
                          | Inr c \<Rightarrow> crew_kickoff lib c [(''topic'', topic)] p1)))))"

definition st_warning :: "string \<Rightarrow> app \<Rightarrow> app" where
  "st_warning body s = s\<lparr>rendered := rendered s @ [Warning body]\<rparr>"

definition st_error :: "string \<Rightarrow> app \<Rightarrow> app" where
  "st_error body s = s\<lparr>rendered := rendered s @ [Error body]\<rparr>"

definition st_success :: "string \<Rightarrow> app \<Rightarrow> app" where
  "st_success body s = s\<lparr>rendered := rendered s @ [Success body]\<rparr>"

definition st_markdown :: "string \<Rightarrow> bool \<Rightarrow> app \<Rightarrow> app" where
  "st_markdown body unsafe_allow_html s =
     s\<lparr>rendered := rendered s @ [Markdown body unsafe_allow_html]\<rparr>"

definition st_divider :: "app \<Rightarrow> app" where
  "st_divider s = s\<lparr>rendered := rendered s @ [Divider]\<rparr>"

definition st_spinner :: "string \<Rightarrow> app \<Rightarrow> app" where
  "st_spinner body s = s\<lparr>rendered := rendered s @ [Spinner body]\<rparr>"

text \<open>
  Lines 60-98: the \<^verbatim>\<open>try\<close> with its handler. The Python \<^verbatim>\<open>None\<close> of line 98 is
  \<open>None\<close>, a returned engine result \<open>r\<close> is \<open>Some r\<close>.
\<close>

definition run_research_pipeline ::
  "'r libs \<Rightarrow> page \<Rightarrow> string \<Rightarrow> bool \<Rightarrow> bool \<Rightarrow> string \<Rightarrow> app \<Rightarrow> 'r option \<times> app" where
  "run_research_pipeline lib g topic include_news include_academic output_format s =
     (case pipeline_body lib g topic include_news include_academic output_format (proc s) of
        (Inr result, p1) \<Rightarrow> (Some result, s\<lparr>proc := p1\<rparr>)
      | (Inl e, p1) \<Rightarrow> (None, st_error (''Error: '' @ str_of e) (s\<lparr>proc := p1\<rparr>)))"

definition rocket :: string where
  "rocket = [CHR 0xF0, CHR 0x9F, CHR 0x9A, CHR 0x80]"

definition check_mark :: string where
  "check_mark = [CHR 0xE2, CHR 0x9C, CHR 0x85]"

definition launching :: string where
  "launching = rocket @ '' Launching research agents and generating the report...''"

definition research_complete :: string where
  "research_complete = check_mark @ '' Research complete!''"

definition powered_by :: string where
  \<open>powered_by = ''<p class="powered-by">Powered by OpenAI and CrewAI</p>''\<close>

definition report_output :: "string \<Rightarrow> string" where
  \<open>report_output body = ''<div class="report-output">'' @ body @ ''</div>''\<close>

text \<open>
  Lines 131-144: what runs when the button \<^verbatim>\<open>Start Research\<close> was pressed. \<^verbatim>\<open>not topic\<close>
  holds of the empty string only; \<^verbatim>\<open>if result\<close> fails for \<^verbatim>\<open>None\<close> and otherwise asks
  the result object.
\<close>

definition start_research :: "'r libs \<Rightarrow> page \<Rightarrow> app \<Rightarrow> app" where
  "start_research lib g s =
     st_success research_complete
       (if page_topic g = [] then st_warning ''Please enter the research topic'' s
        else
          (case run_research_pipeline lib g (page_topic g) (page_include_news g)
                  (page_include_academic g) (page_output_format g) (st_spinner launching s) of
             (result, s1) \<Rightarrow>
               st_markdown powered_by True
                 (st_divider
                    (case result of
                       None \<Rightarrow> s1
                     | Some r \<Rightarrow>
                         if truthy lib r
                         then st_markdown (report_output (str lib r)) True
                                (st_markdown ''## Research Report'' False s1)
                         else s1))))"

text \<open>Line 129: the handler runs on a rerun of the script in which the button was pressed.\<close>

definition start_research_button :: "bool \<Rightarrow> 'r libs \<Rightarrow> page \<Rightarrow> app \<Rightarrow> app" where
  "start_research_button pressed lib g s = (if pressed then start_research lib g s else s)"

section \<open>Notions the properties are stated with\<close>

text \<open>The tasks a task waits for: the entries of its \<^verbatim>\<open>context\<close>, none when it has none.\<close>

definition dependencies :: "task \<Rightarrow> task list" where
  "dependencies t = (case task_context t of None \<Rightarrow> [] | Some ds \<Rightarrow> ds)"

text \<open>The dependency graph over a list of tasks: an edge from a task to each task it waits for.\<close>

definition dependency_edges :: "task list \<Rightarrow> (task \<times> task) list" where
  "dependency_edges ts = concat (map (\<lambda>t. map (Pair t) (dependencies t)) ts)"

text \<open>
  The state of the resource table that object creation maintains: every kept object is
  older than the next fresh identity, and entries under different keys hold different
  objects.
\<close>

definition cache_ok :: "process \<Rightarrow> bool" where
  "cache_ok p \<longleftrightarrow>
     (\<forall>k llm tool. resource_cache p k = Some (llm, tool) \<longrightarrow>
        llm_id llm < next_id p \<and> tool_id tool < next_id p) \<and>
     (\<forall>k k' llm tool llm' tool'.
        resource_cache p k = Some (llm, tool) \<longrightarrow> resource_cache p k' = Some (llm', tool') \<longrightarrow>
        k \<noteq> k' \<longrightarrow> llm_id llm \<noteq> llm_id llm' \<and> tool_id tool \<noteq> tool_id tool')"

text \<open>
  The life of a server process: a sequence of reruns with the button pressed, each with
  its own widget values and its own behaviour of the external libraries.
\<close>

fun presses :: "('r libs \<times> page) list \<Rightarrow> app \<Rightarrow> app" where
  "presses [] s = s"
| "presses ((lib, g) # rs) s = presses rs (start_research lib g s)"

section \<open>Concrete inputs\<close>

definition fresh_process :: process where
  "fresh_process = \<lparr>resource_cache = Map.empty, next_id = 0, submitted = []\<rparr>"

definition fresh_app :: app where
  "fresh_app = \<lparr>proc = fresh_process, rendered = []\<rparr>"

definition demo_page :: page where
  "demo_page =
     \<lparr>openai_api_key = ''sk-demo'',
      serper_api_key = ''serper-demo'',
      selected_model = ''gpt-4o-mini'',
      page_include_news = True,
      page_include_academic = False,
      page_output_format = ''Markdown'',
      page_topic = ''Quantum Computing Advances 2024''\<rparr>"

text \<open>Libraries in which every call succeeds and the engine answers with a text.\<close>

definition reliable_libs :: "string libs" where
  "reliable_libs =
     \<lparr>ChatOpenAI_raises = (\<lambda>m t k. None),
      SerperDevTool_raises = (\<lambda>k. None),
      Agent_raises = (\<lambda>a. None),
      Task_raises = (\<lambda>t. None),
      Crew_raises = (\<lambda>c. None),
      kickoff = (\<lambda>c inputs. Inr ''# Report''),
      truthy = (\<lambda>r. 0 < length r),
      str = (\<lambda>r. r)\<rparr>"

text \<open>The same libraries with an engine that raises on every submission.\<close>

definition failing_libs :: "string libs" where
  "failing_libs = reliable_libs\<lparr>kickoff := (\<lambda>c inputs. Inl (Exception ''rate limit''))\<rparr>"

text \<open>
  The objects a first run with \<open>demo_page\<close> builds from a fresh process when every
  constructor succeeds, and the process after that run's call of the initializer.
\<close>

definition demo_llm :: chat_model where
  "demo_llm = \<lparr>llm_id = 0, model = ''gpt-4o-mini'', temperature = 3 / 10,
               llm_openai_api_key = ''sk-demo''\<rparr>"

definition demo_tool :: search_tool where
  "demo_tool = \<lparr>tool_id = 1, tool_api_key = ''serper-demo''\<rparr>"

definition demo_research_agent :: agent where
  "demo_research_agent =
     \<lparr>role = ''Research Specialist'',
      goal = ''Conduct fast, accurate research on the given topic'',
      backstory = ''Expert in information gathering and analysis'',
      verbose = True, memory = False, tools = [demo_tool], agent_llm = demo_llm\<rparr>"

definition demo_writer_agent :: agent where
  "demo_writer_agent =
     \<lparr>role = ''Technical Research Writer'',
      goal = ''Create concise, structured reports'',
      backstory = ''Specialist in clear, precise technical research paper writing'',
      verbose = True, memory = False, tools = [demo_tool], agent_llm = demo_llm\<rparr>"

definition demo_research_task :: task where
  "demo_research_task =
     MkTask
       ''Find key information about: Quantum Computing Advances 2024 Include the latest news articles.''
       demo_research_agent
       ''Bullet points of key facts and recent developments.''
       (Some True) None"

definition demo_writing_task :: task where
  "demo_writing_task =
     MkTask
       ''Create structured report on: Quantum Computing Advances 2024 in Markdown format.''
       demo_writer_agent
       '' A Markdown document with:\<newline>- Introduction\<newline>- Key Findings\<newline>- Recent Developments\<newline>- Future Outlook\<newline>- References''
       None (Some [demo_research_task])"

definition demo_crew :: crew where
  "demo_crew = \<lparr>agents = [demo_research_agent, demo_writer_agent],
                 tasks = [demo_research_task, demo_writing_task]\<rparr>"

definition warm_process :: process where
  "warm_process =
     \<lparr>resource_cache = [(''sk-demo'', ''serper-demo'', ''gpt-4o-mini'') \<mapsto> (demo_llm, demo_tool)],
      next_id = 2, submitted = []\<rparr>"

section \<open>Evaluation rules\<close>

lemmas demo_defs =
  demo_page_def reliable_libs_def failing_libs_def demo_llm_def demo_tool_def
  fresh_process_def fresh_app_def demo_research_agent_def demo_writer_agent_def
  demo_research_task_def demo_writing_task_def demo_crew_def warm_process_def

lemmas call_defs =
  ChatOpenAI_def SerperDevTool_def Agent_def Task_def Crew_def crew_kickoff_def
  cache_resource_def initialize_tools_body_def initialize_tools_def initialize_agents_def
  research_description_def research_task_def writing_task_def pipeline_body_def

lemmas render_defs =
  st_warning_def st_error_def st_success_def st_markdown_def st_divider_def st_spinner_def
  run_research_pipeline_def start_research_def

section \<open>The initializer and its resource table\<close>

lemma initialize_tools_body_Inr:
  assumes "initialize_tools_body lib a b m p = (Inr (llm, tool), p1)"
  shows "llm_id llm = next_id p \<and> tool_id tool = Suc (next_id p)
         \<and> p1 = p\<lparr>next_id := Suc (Suc (next_id p))\<rparr>"
  using assms
  by (auto simp: initialize_tools_body_def ChatOpenAI_def SerperDevTool_def
           split: option.splits)

lemma initialize_tools_body_Inl:
  assumes "initialize_tools_body lib a b m p = (Inl e, p1)"
  shows "resource_cache p1 = resource_cache p \<and> submitted p1 = submitted p
         \<and> next_id p \<le> next_id p1"
  using assms
  by (auto simp: initialize_tools_body_def ChatOpenAI_def SerperDevTool_def
           split: option.splits)

lemma initialize_tools_hit:
  "resource_cache p (a, b, m) = Some v \<Longrightarrow> initialize_tools lib a b m p = (Inr v, p)"
  by (simp add: initialize_tools_def cache_resource_def)

lemma initialize_tools_miss:
  assumes "resource_cache p (a, b, m) = None"
  shows "initialize_tools lib a b m p =
     (case initialize_tools_body lib a b m p of
        (Inl e, p1) \<Rightarrow> (Inl e, p1)
      | (Inr v, p1) \<Rightarrow> (Inr v, p1\<lparr>resource_cache := (resource_cache p1)((a, b, m) \<mapsto> v)\<rparr>))"
  using assms by (simp add: initialize_tools_def cache_resource_def)

lemma initialize_tools_stores:
  assumes "initialize_tools lib a b m p = (Inr v, p1)"
  shows "resource_cache p1 (a, b, m) = Some v"
proof (cases "resource_cache p (a, b, m)")
  case None
  with assms show ?thesis
    by (auto simp: initialize_tools_miss split: prod.splits sum.splits)
next
  case (Some u)
  with assms show ?thesis
    by (simp add: initialize_tools_hit)
qed

lemma initialize_tools_keeps:
  assumes "resource_cache p k = Some v"
  shows "resource_cache (snd (initialize_tools lib a b m p)) k = Some v"
proof (cases "resource_cache p (a, b, m)")
  case None
  then have "k \<noteq> (a, b, m)" using assms by auto
  with None assms show ?thesis
    by (auto simp: initialize_tools_miss split: prod.splits sum.splits
             dest: initialize_tools_body_Inr initialize_tools_body_Inl)
next
  case (Some u)
  with assms show ?thesis
    by (simp add: initialize_tools_hit)
qed

lemma initialize_tools_submitted:
  "submitted (snd (initialize_tools lib a b m p)) = submitted p"
proof (cases "resource_cache p (a, b, m)")
  case None
  then show ?thesis
    by (auto simp: initialize_tools_miss split: prod.splits sum.splits
             dest: initialize_tools_body_Inr initialize_tools_body_Inl)
next
  case (Some u)
  then show ?thesis
    by (simp add: initialize_tools_hit)
qed

lemma cache_ok_next_id:
  assumes "cache_ok p" and "resource_cache p1 = resource_cache p" and "next_id p \<le> next_id p1"
  shows "cache_ok p1"
  using assms unfolding cache_ok_def by (metis order_less_le_trans)

lemma cache_ok_store:
  assumes ok: "cache_ok p" and miss: "resource_cache p key = None"
    and l: "llm_id llm = next_id p" and t: "tool_id tool = Suc (next_id p)"
  shows "cache_ok (p\<lparr>next_id := Suc (Suc (next_id p)),
                     resource_cache := (resource_cache p)(key \<mapsto> (llm, tool))\<rparr>)"
proof -
  let ?c = "(resource_cache p)(key \<mapsto> (llm, tool))"
  have old: "llm_id x < next_id p \<and> tool_id y < next_id p"
    if "resource_cache p k = Some (x, y)" for k x y
    using ok that unfolding cache_ok_def by blast
  have inj: "llm_id x \<noteq> llm_id x' \<and> tool_id y \<noteq> tool_id y'"
    if "resource_cache p k = Some (x, y)" "resource_cache p k' = Some (x', y')" "k \<noteq> k'"
    for k k' x y x' y'
    using ok that unfolding cache_ok_def by blast
  have bound: "llm_id x < Suc (Suc (next_id p)) \<and> tool_id y < Suc (Suc (next_id p))"
    if "?c k = Some (x, y)" for k x y
  proof (cases "k = key")
    case True
    with that l t show ?thesis by simp
  next
    case False
    with that have "resource_cache p k = Some (x, y)" by simp
    from old [OF this] show ?thesis by simp
  qed
  have apart: "llm_id x \<noteq> llm_id x' \<and> tool_id y \<noteq> tool_id y'"
    if a: "?c k = Some (x, y)" and b: "?c k' = Some (x', y')" and ne: "k \<noteq> k'"
    for k k' x y x' y'
  proof (cases "k = key")
    case True
    with ne have "k' \<noteq> key" by simp
    with b have "resource_cache p k' = Some (x', y')" by simp
    from old [OF this] a True l t show ?thesis by auto
  next
    case False
    with a have a': "resource_cache p k = Some (x, y)" by simp
    show ?thesis
    proof (cases "k' = key")
      case True
      with b l t old [OF a'] show ?thesis by auto
    next
      case False
      with b have "resource_cache p k' = Some (x', y')" by simp
      from inj [OF a' this ne] show ?thesis .
    qed
  qed
  show ?thesis
    unfolding cache_ok_def using bound apart by simp
qed

lemma initialize_tools_cache_ok:
  assumes "cache_ok p"
  shows "cache_ok (snd (initialize_tools lib a b m p))"
proof (cases "resource_cache p (a, b, m)")
  case None
  show ?thesis
  proof (cases "initialize_tools_body lib a b m p")
    case (Pair res p1)
    show ?thesis
    proof (cases res)
      case (Inl e)
      with Pair None assms show ?thesis
        by (auto simp: initialize_tools_miss dest!: initialize_tools_body_Inl
                 intro: cache_ok_next_id)
    next
      case (Inr v)
      obtain llm tool where v: "v = (llm, tool)" by (cases v)
      from Pair Inr v have b: "initialize_tools_body lib a b m p = (Inr (llm, tool), p1)"
        by simp
      note f = initialize_tools_body_Inr [OF b]
      have "cache_ok (p\<lparr>next_id := Suc (Suc (next_id p)),
                     resource_cache := (resource_cache p)((a, b, m) \<mapsto> (llm, tool))\<rparr>)"
        using assms None f by (intro cache_ok_store) auto
      then show ?thesis
        using None b f by (simp add: initialize_tools_miss)
    qed
  qed
next
  case (Some u)
  with assms show ?thesis
    by (simp add: initialize_tools_hit)
qed


section \<open>The body of the try and the handler\<close>

lemma cache_ok_cong:
  assumes "resource_cache p1 = resource_cache p" and "next_id p1 = next_id p"
  shows "cache_ok p1 = cache_ok p"
  using assms by (simp add: cache_ok_def)

lemma pipeline_body_cache:
  "resource_cache (snd (pipeline_body lib g topic n a fmt p)) =
   resource_cache (snd (initialize_tools lib (openai_api_key g) (serper_api_key g)
     (selected_model g) p))"
  by (auto simp: pipeline_body_def crew_kickoff_def split: prod.splits sum.splits)

lemma pipeline_body_next_id:
  "next_id (snd (pipeline_body lib g topic n a fmt p)) =
   next_id (snd (initialize_tools lib (openai_api_key g) (serper_api_key g)
     (selected_model g) p))"
  by (auto simp: pipeline_body_def crew_kickoff_def split: prod.splits sum.splits)

lemma pipeline_body_cache_ok:
  assumes "cache_ok p"
  shows "cache_ok (snd (pipeline_body lib g topic n a fmt p))"
  using initialize_tools_cache_ok [OF assms]
  by (simp add: cache_ok_cong [OF pipeline_body_cache pipeline_body_next_id])

lemma pipeline_body_keeps:
  assumes "resource_cache p k = Some v"
  shows "resource_cache (snd (pipeline_body lib g topic n a fmt p)) k = Some v"
  using initialize_tools_keeps [OF assms] by (simp add: pipeline_body_cache)

lemma pipeline_body_Inr_submitted:
  assumes "pipeline_body lib g topic n a fmt p = (Inr r, p1)"
  shows "length (submitted p1) = Suc (length (submitted p))"
proof -
  have "submitted (snd (initialize_tools lib (openai_api_key g) (serper_api_key g)
     (selected_model g) p)) = submitted p"
    by (rule initialize_tools_submitted)
  with assms show ?thesis
    by (auto simp: pipeline_body_def crew_kickoff_def split: prod.splits sum.splits)
qed

lemma pipeline_body_submitted_le:
  "length (submitted p) \<le> length (submitted (snd (pipeline_body lib g topic n a fmt p)))"
proof -
  have "submitted (snd (initialize_tools lib (openai_api_key g) (serper_api_key g)
     (selected_model g) p)) = submitted p"
    by (rule initialize_tools_submitted)
  then show ?thesis
    by (auto simp: pipeline_body_def crew_kickoff_def split: prod.splits sum.splits)
qed

text \<open>The dependency graph of the two tasks the body composes, and what the body submits.\<close>

lemma composed_tasks_graph:
  "task_context (writing_task wa (research_task ra topic n a) topic fmt) =
     Some [research_task ra topic n a]
   \<and> task_context (research_task ra topic n a) = None
   \<and> dependency_edges
       [research_task ra topic n a, writing_task wa (research_task ra topic n a) topic fmt] =
       [(writing_task wa (research_task ra topic n a) topic fmt, research_task ra topic n a)]
   \<and> acyclic (set (dependency_edges
       [research_task ra topic n a, writing_task wa (research_task ra topic n a) topic fmt]))"
proof -
  let ?r = "research_task ra topic n a"
  let ?w = "writing_task wa ?r topic fmt"
  have w: "task_context ?w = Some [?r]"
    by (simp add: writing_task_def)
  have r: "task_context ?r = None"
    by (simp add: research_task_def)
  have edges: "dependency_edges [?r, ?w] = [(?w, ?r)]"
    by (simp add: dependency_edges_def dependencies_def w r)
  have "?w \<noteq> ?r"
    using w r by auto
  moreover have "acyclic ({} :: (task \<times> task) set)"
    by (simp add: acyclic_def)
  ultimately have "acyclic {(?w, ?r)}"
    by simp
  then have "acyclic (set (dependency_edges [?r, ?w]))"
    by (simp add: edges)
  with w r edges show ?thesis by blast
qed

lemma composed_crew_graph:
  assumes "tasks c = [research_task ra topic n a,
                      writing_task wa (research_task ra topic n a) topic fmt]"
  shows "\<exists>rt wt.
         rt = research_task ra topic n a \<and> wt = writing_task wa rt topic fmt
         \<and> tasks c = [rt, wt]
         \<and> task_context wt = Some [rt] \<and> task_context rt = None
         \<and> dependency_edges (tasks c) = [(wt, rt)]
         \<and> acyclic (set (dependency_edges (tasks c)))"
  unfolding assms using composed_tasks_graph [of wa ra topic n a fmt] by blast

lemma pipeline_body_submits:
  "submitted (snd (pipeline_body lib g topic n a fmt p)) = submitted p
   \<or> (\<exists>ra wa. submitted (snd (pipeline_body lib g topic n a fmt p)) =
         submitted p @
         [(\<lparr>agents = [ra, wa],
            tasks = [research_task ra topic n a,
                     writing_task wa (research_task ra topic n a) topic fmt]\<rparr>,
           [(''topic'', topic)])])"
proof -
  have sub: "submitted (snd (initialize_tools lib (openai_api_key g) (serper_api_key g)
      (selected_model g) p)) = submitted p"
    by (rule initialize_tools_submitted)
  obtain r0 p0 where i: "initialize_tools lib (openai_api_key g) (serper_api_key g)
      (selected_model g) p = (r0, p0)"
    by (cases "initialize_tools lib (openai_api_key g) (serper_api_key g)
      (selected_model g) p")
  from sub i have s0: "submitted p0 = submitted p" by simp
  show ?thesis
    using s0
    by (auto simp: pipeline_body_def i Task_def Crew_def crew_kickoff_def
        split: sum.splits option.splits prod.splits)
qed

lemma pipeline_body_built:
  assumes tools: "initialize_tools lib (openai_api_key g) (serper_api_key g) (selected_model g) p =
           (Inr (llm, tool), p1)"
    and ags: "initialize_agents lib llm tool = Inr (ra, wa)"
    and tasks_ok: "\<forall>t. Task_raises lib t = None"
    and crew_ok: "\<forall>c. Crew_raises lib c = None"
  shows "pipeline_body lib g topic n a fmt p =
     (kickoff lib
        \<lparr>agents = [ra, wa],
         tasks = [research_task ra topic n a,
                  writing_task wa (research_task ra topic n a) topic fmt]\<rparr>
        [(''topic'', topic)],
      p1\<lparr>submitted := submitted p @
        [(\<lparr>agents = [ra, wa],
           tasks = [research_task ra topic n a,
                    writing_task wa (research_task ra topic n a) topic fmt]\<rparr>,
          [(''topic'', topic)])]\<rparr>)"
proof -
  have "submitted (snd (initialize_tools lib (openai_api_key g) (serper_api_key g)
      (selected_model g) p)) = submitted p"
    by (rule initialize_tools_submitted)
  then have sub: "submitted p1 = submitted p"
    by (simp add: tools)
  show ?thesis
    using tasks_ok crew_ok
    by (simp add: pipeline_body_def tools ags Task_def Crew_def crew_kickoff_def sub)
qed

lemma run_research_pipeline_Inl:
  assumes "pipeline_body lib g topic n a fmt (proc s) = (Inl e, p1)"
  shows "run_research_pipeline lib g topic n a fmt s =
     (None, s\<lparr>proc := p1, rendered := rendered s @ [Error (''Error: '' @ str_of e)]\<rparr>)"
  using assms by (simp add: run_research_pipeline_def st_error_def)

lemma run_research_pipeline_Inr:
  assumes "pipeline_body lib g topic n a fmt (proc s) = (Inr r, p1)"
  shows "run_research_pipeline lib g topic n a fmt s = (Some r, s\<lparr>proc := p1\<rparr>)"
  using assms by (simp add: run_research_pipeline_def)

lemma start_research_topic:
  assumes "page_topic g \<noteq> []"
    and "pipeline_body lib g (page_topic g) (page_include_news g) (page_include_academic g)
           (page_output_format g) (proc s) = (res, p1)"
  shows "start_research lib g s =
     s\<lparr>proc := p1,
       rendered := rendered s @ [Spinner launching]
         @ (case res of
              Inl e \<Rightarrow> [Error (''Error: '' @ str_of e)]
            | Inr r \<Rightarrow>
                if truthy lib r
                then [Markdown ''## Research Report'' False,
                      Markdown (report_output (str lib r)) True]
                else [])
         @ [Divider, Markdown powered_by True, Success research_complete]\<rparr>"
proof (cases res)
  case (Inl e)
  with assms show ?thesis
    by (simp add: start_research_def run_research_pipeline_def st_spinner_def st_error_def
        st_divider_def st_markdown_def st_success_def)
next
  case (Inr r)
  with assms show ?thesis
    by (simp add: start_research_def run_research_pipeline_def st_spinner_def
        st_divider_def st_markdown_def st_success_def)
qed

lemma start_research_no_topic:
  assumes "page_topic g = []"
  shows "start_research lib g s =
     s\<lparr>rendered := rendered s
         @ [Warning ''Please enter the research topic'', Success research_complete]\<rparr>"
  using assms by (simp add: start_research_def st_warning_def st_success_def)

lemma start_research_proc:
  "proc (start_research lib g s) =
     (if page_topic g = [] then proc s
      else snd (pipeline_body lib g (page_topic g) (page_include_news g)
             (page_include_academic g) (page_output_format g) (proc s)))"
proof (cases "page_topic g = []")
  case True
  then show ?thesis by (simp add: start_research_no_topic)
next
  case False
  obtain res p1 where b: "pipeline_body lib g (page_topic g) (page_include_news g)
      (page_include_academic g) (page_output_format g) (proc s) = (res, p1)"
    by (cases "pipeline_body lib g (page_topic g) (page_include_news g)
      (page_include_academic g) (page_output_format g) (proc s)")
  show ?thesis
    using False by (simp add: start_research_topic [OF False b] b)
qed

lemma start_research_cache_ok:
  "cache_ok (proc s) \<Longrightarrow> cache_ok (proc (start_research lib g s))"
  by (simp add: start_research_proc pipeline_body_cache_ok)

lemma start_research_keeps:
  "resource_cache (proc s) k = Some v \<Longrightarrow>
   resource_cache (proc (start_research lib g s)) k = Some v"
  by (simp add: start_research_proc pipeline_body_keeps)

lemma presses_cache_ok:
  "cache_ok (proc s) \<Longrightarrow> cache_ok (proc (presses rs s))"
  by (induction rs arbitrary: s) (auto simp: start_research_cache_ok)

lemma presses_keeps:
  "resource_cache (proc s) k = Some v \<Longrightarrow> resource_cache (proc (presses rs s)) k = Some v"
  by (induction rs arbitrary: s) (auto simp: start_research_keeps)

text \<open>Every process state reached from a fresh process by runs of the handler is in order.\<close>

lemma presses_fresh_cache_ok: "cache_ok (proc (presses rs fresh_app))"
  by (rule presses_cache_ok) (simp add: cache_ok_def fresh_app_def fresh_process_def)

section \<open>Task composition\<close>


text \<open>
  C1. For every topic and both flags, the description of the research task is
  "Find key information about: " and the topic, then the news sentence exactly when
  \<open>include_news\<close> holds, then the academic sentence exactly when \<open>include_academic\<close>
  holds, news before academic.
\<close>

theorem research_description_concat:
  "description (research_task research_agent topic include_news include_academic) =
     ''Find key information about: '' @ topic
     @ (if include_news then '' Include the latest news articles.'' else [])
     @ (if include_academic then '' Also include research papers and academic sources.'' else [])"
  by (simp add: research_task_def research_description_def)

text \<open>
  C2. The expected output of the research task depends on \<open>include_academic\<close> alone:
  the detailed text with academic references when it holds, the plain text otherwise;
  for the topic "Quantum Computing Advances 2024" with news and without academic sources
  it is "Bullet points of key facts and recent developments."
\<close>

theorem research_expected_output_choice:
  "expected_output (research_task research_agent topic include_news include_academic) =
     (if include_academic
      then ''Detailed Bullet points of key facts, recent developments, and academic references.''
      else ''Bullet points of key facts and recent developments.'')
   \<and> expected_output (research_task research_agent ''Quantum Computing Advances 2024'' True False) =
       ''Bullet points of key facts and recent developments.''"
  by (simp add: research_task_def)

text \<open>
  C3. For every topic and output format, the description of the writing task is
  "Create structured report on: {topic} in {output_format} format.", and its expected
  output ends with the same five lines whatever the topic, the format and the flags are:
  Introduction, Key Findings, Recent Developments, Future Outlook, References, in this
  order.
\<close>

theorem writing_task_texts:
  "description (writing_task writer_agent rtask topic output_format) =
     ''Create structured report on: '' @ topic @ '' in '' @ output_format @ '' format.''
   \<and> expected_output (writing_task writer_agent rtask topic output_format) =
       '' A '' @ output_format @ '' document with:''
       @ ''\<newline>- '' @ ''Introduction''
       @ ''\<newline>- '' @ ''Key Findings''
       @ ''\<newline>- '' @ ''Recent Developments''
       @ ''\<newline>- '' @ ''Future Outlook''
       @ ''\<newline>- '' @ ''References''
   \<and> (\<exists>before s1 s2 s3 s4 after.
         expected_output (writing_task writer_agent rtask topic output_format) =
           before @ ''Introduction'' @ s1 @ ''Key Findings'' @ s2 @ ''Recent Developments''
           @ s3 @ ''Future Outlook'' @ s4 @ ''References'' @ after)"
proof -
  let ?e = "expected_output (writing_task writer_agent rtask topic output_format)"
  have d: "description (writing_task writer_agent rtask topic output_format) =
      ''Create structured report on: '' @ topic @ '' in '' @ output_format @ '' format.''"
    by (simp add: writing_task_def)
  have e: "?e = '' A '' @ output_format @ '' document with:''
       @ ''\<newline>- '' @ ''Introduction''
       @ ''\<newline>- '' @ ''Key Findings''
       @ ''\<newline>- '' @ ''Recent Developments''
       @ ''\<newline>- '' @ ''Future Outlook''
       @ ''\<newline>- '' @ ''References''"
    by (simp add: writing_task_def)
  have "?e = ('' A '' @ output_format @ '' document with:'' @ ''\<newline>- '')
       @ ''Introduction'' @ ''\<newline>- '' @ ''Key Findings'' @ ''\<newline>- ''
       @ ''Recent Developments'' @ ''\<newline>- '' @ ''Future Outlook'' @ ''\<newline>- ''
       @ ''References'' @ []"
    unfolding e by simp
  then have "\<exists>before s1 s2 s3 s4 after.
      ?e = before @ ''Introduction'' @ s1 @ ''Key Findings'' @ s2 @ ''Recent Developments''
           @ s3 @ ''Future Outlook'' @ s4 @ ''References'' @ after"
    by blast
  with d e show ?thesis by blast
qed

section \<open>Agents and submission\<close>

text \<open>
  C8, as the code has it. When the agent definitions succeed they give two agents, with
  the role texts "Research Specialist" and "Technical Research Writer"; both hold the
  model handle and, as their only tool, the search handle that were passed in (in a run,
  the pair the initializer returned, lines 62-63).
\<close>

theorem agents_roles_and_handles:
  assumes "initialize_agents lib llm tool = Inr (research_agent, writer_agent)"
  shows "role research_agent = ''Research Specialist''
     \<and> role writer_agent = ''Technical Research Writer''
     \<and> agent_llm research_agent = llm \<and> agent_llm writer_agent = llm
     \<and> tools research_agent = [tool] \<and> tools writer_agent = [tool]"
  using assms
  by (auto simp: initialize_agents_def Agent_def split: option.splits)

text \<open>An instance: the agents built from the handles of the first run.\<close>

theorem agents_roles_and_handles_witness:
  "initialize_agents reliable_libs demo_llm demo_tool =
     Inr (demo_research_agent, demo_writer_agent)
   \<and> role demo_research_agent = ''Research Specialist''
   \<and> role demo_writer_agent = ''Technical Research Writer''
   \<and> agent_llm demo_research_agent = demo_llm \<and> agent_llm demo_writer_agent = demo_llm
   \<and> tools demo_research_agent = [demo_tool] \<and> tools demo_writer_agent = [demo_tool]"
proof -
  have a: "initialize_agents reliable_libs demo_llm demo_tool =
     Inr (demo_research_agent, demo_writer_agent)"
    by (simp add: initialize_agents_def Agent_def reliable_libs_def
        demo_research_agent_def demo_writer_agent_def)
  from agents_roles_and_handles [OF a] a show ?thesis by simp
qed

text \<open>
  C8 as stated does not hold: the role text of the second agent is
  "Technical Research Writer" (line 49), not "Technical Writer".
\<close>

theorem writer_role_text:
  "isl (initialize_agents reliable_libs demo_llm demo_tool) = False
   \<and> role (snd (projr (initialize_agents reliable_libs demo_llm demo_tool))) =
       ''Technical Research Writer''
   \<and> role (snd (projr (initialize_agents reliable_libs demo_llm demo_tool))) \<noteq>
       ''Technical Writer''"
  by (simp add: initialize_agents_def Agent_def reliable_libs_def)

text \<open>
  C9. When the handles, the two agents, the two tasks and the crew have been built, the
  body of the try makes one call of the engine's \<^verbatim>\<open>kickoff\<close>, on the crew of exactly
  these two agents and two tasks and with the inputs \<^verbatim>\<open>{'topic': topic}\<close>; what the call
  returns or raises is the outcome of the body, and a returned result is what
  \<open>run_research_pipeline\<close> returns.
\<close>

theorem submission_bundle:
  assumes tools: "initialize_tools lib (openai_api_key g) (serper_api_key g) (selected_model g) p =
           (Inr (llm, tool), p1)"
    and ags: "initialize_agents lib llm tool = Inr (research_agent, writer_agent)"
    and rt: "Task lib (research_task research_agent topic include_news include_academic) =
           Inr rtask"
    and wt: "Task lib (writing_task writer_agent rtask topic output_format) = Inr wtask"
    and cr: "Crew lib [research_agent, writer_agent] [rtask, wtask] = Inr c"
  shows "pipeline_body lib g topic include_news include_academic output_format p =
           (kickoff lib c [(''topic'', topic)],
            p1\<lparr>submitted := submitted p @ [(c, [(''topic'', topic)])]\<rparr>)
     \<and> agents c = [research_agent, writer_agent]
     \<and> tasks c =
         [research_task research_agent topic include_news include_academic,
          writing_task writer_agent
            (research_task research_agent topic include_news include_academic)
            topic output_format]
     \<and> (\<forall>r. kickoff lib c [(''topic'', topic)] = Inr r \<longrightarrow>
          fst (run_research_pipeline lib g topic include_news include_academic output_format
                 \<lparr>proc = p, rendered = ui\<rparr>) = Some r)"
proof -
  have "submitted (snd (initialize_tools lib (openai_api_key g) (serper_api_key g)
      (selected_model g) p)) = submitted p"
    by (rule initialize_tools_submitted)
  then have sub: "submitted p1 = submitted p"
    by (simp add: tools)
  have body: "pipeline_body lib g topic include_news include_academic output_format p =
           (kickoff lib c [(''topic'', topic)],
            p1\<lparr>submitted := submitted p @ [(c, [(''topic'', topic)])]\<rparr>)"
    by (simp add: pipeline_body_def tools ags rt wt cr crew_kickoff_def sub)
  have r: "rtask = research_task research_agent topic include_news include_academic"
    using rt by (auto simp: Task_def split: option.splits)
  have w: "wtask = writing_task writer_agent rtask topic output_format"
    using wt by (auto simp: Task_def split: option.splits)
  have c: "c = \<lparr>agents = [research_agent, writer_agent], tasks = [rtask, wtask]\<rparr>"
    using cr by (auto simp: Crew_def split: option.splits)
  have ret: "fst (run_research_pipeline lib g topic include_news include_academic output_format
                 \<lparr>proc = p, rendered = ui\<rparr>) = Some r"
    if "kickoff lib c [(''topic'', topic)] = Inr r" for r
    using that by (simp add: run_research_pipeline_def body)
  from body r w c ret show ?thesis by simp
qed

text \<open>An instance: the first run with \<open>demo_page\<close> and libraries that succeed.\<close>

theorem submission_bundle_witness:
  "initialize_tools reliable_libs (openai_api_key demo_page) (serper_api_key demo_page)
     (selected_model demo_page) fresh_process = (Inr (demo_llm, demo_tool), warm_process)
   \<and> initialize_agents reliable_libs demo_llm demo_tool =
       Inr (demo_research_agent, demo_writer_agent)
   \<and> Task reliable_libs
       (research_task demo_research_agent ''Quantum Computing Advances 2024'' True False) =
       Inr demo_research_task
   \<and> Task reliable_libs
       (writing_task demo_writer_agent demo_research_task ''Quantum Computing Advances 2024''
          ''Markdown'') = Inr demo_writing_task
   \<and> Crew reliable_libs [demo_research_agent, demo_writer_agent]
       [demo_research_task, demo_writing_task] = Inr demo_crew
   \<and> pipeline_body reliable_libs demo_page ''Quantum Computing Advances 2024'' True False
       ''Markdown'' fresh_process =
       (Inr ''# Report'',
        warm_process\<lparr>submitted := submitted fresh_process
          @ [(demo_crew, [(''topic'', ''Quantum Computing Advances 2024'')])]\<rparr>)
   \<and> fst (run_research_pipeline reliable_libs demo_page ''Quantum Computing Advances 2024''
            True False ''Markdown'' \<lparr>proc = fresh_process, rendered = []\<rparr>) = Some ''# Report''"
proof -
  have tools: "initialize_tools reliable_libs (openai_api_key demo_page)
      (serper_api_key demo_page) (selected_model demo_page) fresh_process =
      (Inr (demo_llm, demo_tool), warm_process)"
    by (simp add: demo_defs call_defs)
  have ags: "initialize_agents reliable_libs demo_llm demo_tool =
       Inr (demo_research_agent, demo_writer_agent)"
    by (simp add: initialize_agents_def Agent_def reliable_libs_def
        demo_research_agent_def demo_writer_agent_def)
  have rt: "Task reliable_libs
       (research_task demo_research_agent ''Quantum Computing Advances 2024'' True False) =
       Inr demo_research_task"
    by (simp add: Task_def reliable_libs_def research_task_def research_description_def
        demo_research_task_def)
  have wt: "Task reliable_libs
       (writing_task demo_writer_agent demo_research_task ''Quantum Computing Advances 2024''
          ''Markdown'') = Inr demo_writing_task"
    by (simp add: Task_def reliable_libs_def writing_task_def demo_writing_task_def)
  have cr: "Crew reliable_libs [demo_research_agent, demo_writer_agent]
       [demo_research_task, demo_writing_task] = Inr demo_crew"
    by (simp add: Crew_def reliable_libs_def demo_crew_def)
  have k: "kickoff reliable_libs demo_crew [(''topic'', ''Quantum Computing Advances 2024'')] =
      Inr ''# Report''"
    by (simp add: reliable_libs_def)
  note t = submission_bundle [OF tools ags rt wt cr, of "[]"]
  have body: "pipeline_body reliable_libs demo_page ''Quantum Computing Advances 2024'' True
       False ''Markdown'' fresh_process =
       (Inr ''# Report'',
        warm_process\<lparr>submitted := submitted fresh_process
          @ [(demo_crew, [(''topic'', ''Quantum Computing Advances 2024'')])]\<rparr>)"
    using t [THEN conjunct1] by (simp only: k)
  have ret: "fst (run_research_pipeline reliable_libs demo_page
      ''Quantum Computing Advances 2024'' True False ''Markdown''
      \<lparr>proc = fresh_process, rendered = []\<rparr>) = Some ''# Report''"
    using t [THEN conjunct2, THEN conjunct2, THEN conjunct2, rule_format, OF k] .
  show ?thesis
    using tools ags rt wt cr body ret by (simp only: simp_thms)
qed

text \<open>
  C7. Every crew a run submits to the engine holds exactly the research task and the
  writing task built by that run; the context of the writing task is the one-element
  list of that research task, the research task has no context, and the dependency graph
  over the two tasks has the single edge from the writing task to the research task and
  no cycle. When the handles and the agents have been built and no task or crew
  constructor raises, the run does submit such a crew.
\<close>

theorem task_dependencies:
  "(\<forall>c inputs.
      (c, inputs) \<in> set (drop (length (submitted p))
                        (submitted (snd (pipeline_body lib g topic n a fmt p)))) \<longrightarrow>
      (\<exists>ra wa rt wt.
         rt = research_task ra topic n a \<and> wt = writing_task wa rt topic fmt
         \<and> tasks c = [rt, wt]
         \<and> task_context wt = Some [rt] \<and> task_context rt = None
         \<and> dependency_edges (tasks c) = [(wt, rt)]
         \<and> acyclic (set (dependency_edges (tasks c)))))
   \<and> (initialize_tools lib (openai_api_key g) (serper_api_key g) (selected_model g) p =
         (Inr (llm, tool), p1) \<longrightarrow>
       initialize_agents lib llm tool = Inr (research_agent, writer_agent) \<longrightarrow>
       (\<forall>t. Task_raises lib t = None) \<longrightarrow>
       (\<forall>c. Crew_raises lib c = None) \<longrightarrow>
       (\<exists>c rt wt.
          pipeline_body lib g topic n a fmt p =
            (kickoff lib c [(''topic'', topic)],
             p1\<lparr>submitted := submitted p @ [(c, [(''topic'', topic)])]\<rparr>)
          \<and> rt = research_task research_agent topic n a
          \<and> wt = writing_task writer_agent rt topic fmt
          \<and> tasks c = [rt, wt]
          \<and> task_context wt = Some [rt] \<and> task_context rt = None
          \<and> dependency_edges (tasks c) = [(wt, rt)]
          \<and> acyclic (set (dependency_edges (tasks c)))))"
proof (intro conjI allI impI)
  fix c inputs
  assume new: "(c, inputs) \<in> set (drop (length (submitted p))
                        (submitted (snd (pipeline_body lib g topic n a fmt p))))"
  from pipeline_body_submits [of lib g topic n a fmt p]
  obtain ra wa where c: "c = \<lparr>agents = [ra, wa],
      tasks = [research_task ra topic n a,
               writing_task wa (research_task ra topic n a) topic fmt]\<rparr>"
    using new by auto
  have "tasks c = [research_task ra topic n a,
                   writing_task wa (research_task ra topic n a) topic fmt]"
    by (simp add: c)
  from composed_crew_graph [OF this]
  show "\<exists>ra wa rt wt.
         rt = research_task ra topic n a \<and> wt = writing_task wa rt topic fmt
         \<and> tasks c = [rt, wt]
         \<and> task_context wt = Some [rt] \<and> task_context rt = None
         \<and> dependency_edges (tasks c) = [(wt, rt)]
         \<and> acyclic (set (dependency_edges (tasks c)))"
    by blast
next
  assume tools: "initialize_tools lib (openai_api_key g) (serper_api_key g) (selected_model g) p =
         (Inr (llm, tool), p1)"
    and ags: "initialize_agents lib llm tool = Inr (research_agent, writer_agent)"
    and t: "\<forall>t. Task_raises lib t = None"
    and cr: "\<forall>c. Crew_raises lib c = None"
  let ?rt = "research_task research_agent topic n a"
  let ?wt = "writing_task writer_agent ?rt topic fmt"
  let ?c = "\<lparr>agents = [research_agent, writer_agent], tasks = [?rt, ?wt]\<rparr>"
  note b = pipeline_body_built [OF tools ags t cr, of topic n a fmt]
  have "tasks ?c = [research_task research_agent topic n a,
                    writing_task writer_agent (research_task research_agent topic n a) topic fmt]"
    by simp
  from composed_crew_graph [OF this] b
  show "\<exists>c rt wt.
          pipeline_body lib g topic n a fmt p =
            (kickoff lib c [(''topic'', topic)],
             p1\<lparr>submitted := submitted p @ [(c, [(''topic'', topic)])]\<rparr>)
          \<and> rt = research_task research_agent topic n a
          \<and> wt = writing_task writer_agent rt topic fmt
          \<and> tasks c = [rt, wt]
          \<and> task_context wt = Some [rt] \<and> task_context rt = None
          \<and> dependency_edges (tasks c) = [(wt, rt)]
          \<and> acyclic (set (dependency_edges (tasks c)))"
    by blast
qed

text \<open>An instance: the crew the first run with \<open>demo_page\<close> submits.\<close>

theorem task_dependencies_witness:
  "initialize_tools reliable_libs (openai_api_key demo_page) (serper_api_key demo_page)
     (selected_model demo_page) fresh_process = (Inr (demo_llm, demo_tool), warm_process)
   \<and> initialize_agents reliable_libs demo_llm demo_tool =
       Inr (demo_research_agent, demo_writer_agent)
   \<and> (\<forall>t. Task_raises reliable_libs t = None)
   \<and> (\<forall>c. Crew_raises reliable_libs c = None)
   \<and> (demo_crew, [(''topic'', ''Quantum Computing Advances 2024'')]) \<in>
       set (drop (length (submitted fresh_process))
         (submitted (snd (pipeline_body reliable_libs demo_page
            ''Quantum Computing Advances 2024'' True False ''Markdown'' fresh_process))))
   \<and> tasks demo_crew = [demo_research_task, demo_writing_task]
   \<and> task_context demo_writing_task = Some [demo_research_task]
   \<and> task_context demo_research_task = None
   \<and> (\<exists>ra wa rt wt.
         rt = research_task ra ''Quantum Computing Advances 2024'' True False
         \<and> wt = writing_task wa rt ''Quantum Computing Advances 2024'' ''Markdown''
         \<and> tasks demo_crew = [rt, wt]
         \<and> task_context wt = Some [rt] \<and> task_context rt = None
         \<and> dependency_edges (tasks demo_crew) = [(wt, rt)]
         \<and> acyclic (set (dependency_edges (tasks demo_crew))))
   \<and> (\<exists>c rt wt.
         pipeline_body reliable_libs demo_page ''Quantum Computing Advances 2024'' True False
           ''Markdown'' fresh_process =
           (kickoff reliable_libs c [(''topic'', ''Quantum Computing Advances 2024'')],
            warm_process\<lparr>submitted := submitted fresh_process
              @ [(c, [(''topic'', ''Quantum Computing Advances 2024'')])]\<rparr>)
         \<and> rt = research_task demo_research_agent ''Quantum Computing Advances 2024'' True False
         \<and> wt = writing_task demo_writer_agent rt ''Quantum Computing Advances 2024'' ''Markdown''
         \<and> tasks c = [rt, wt]
         \<and> task_context wt = Some [rt] \<and> task_context rt = None
         \<and> dependency_edges (tasks c) = [(wt, rt)]
         \<and> acyclic (set (dependency_edges (tasks c))))"
proof -
  have tools: "initialize_tools reliable_libs (openai_api_key demo_page)
      (serper_api_key demo_page) (selected_model demo_page) fresh_process =
      (Inr (demo_llm, demo_tool), warm_process)"
    by (simp add: demo_defs call_defs)
  have ags: "initialize_agents reliable_libs demo_llm demo_tool =
       Inr (demo_research_agent, demo_writer_agent)"
    by (simp add: initialize_agents_def Agent_def reliable_libs_def
        demo_research_agent_def demo_writer_agent_def)
  have tk: "\<forall>t. Task_raises reliable_libs t = None"
    by (simp add: reliable_libs_def)
  have cr: "\<forall>c. Crew_raises reliable_libs c = None"
    by (simp add: reliable_libs_def)
  have mem: "(demo_crew, [(''topic'', ''Quantum Computing Advances 2024'')]) \<in>
       set (drop (length (submitted fresh_process))
         (submitted (snd (pipeline_body reliable_libs demo_page
            ''Quantum Computing Advances 2024'' True False ''Markdown'' fresh_process))))"
    by (simp add: demo_defs call_defs)
  have c1: "tasks demo_crew = [demo_research_task, demo_writing_task]"
    by (simp add: demo_crew_def)
  have c2: "task_context demo_writing_task = Some [demo_research_task]"
    by (simp add: demo_writing_task_def)
  have c3: "task_context demo_research_task = None"
    by (simp add: demo_research_task_def)
  note t = task_dependencies [where p = fresh_process and lib = reliable_libs
      and g = demo_page and topic = "''Quantum Computing Advances 2024''" and n = True
      and a = False and fmt = "''Markdown''" and llm = demo_llm and tool = demo_tool
      and ?p1.0 = warm_process and research_agent = demo_research_agent
      and writer_agent = demo_writer_agent]
  note a = t [THEN conjunct1, rule_format, OF mem]
  note b = t [THEN conjunct2, rule_format, OF tools ags tk [rule_format] cr [rule_format]]
  show ?thesis
    using tools ags tk cr mem c1 c2 c3 a b by (simp only: simp_thms)
qed

section \<open>The button handler\<close>

text \<open>
  C4. With an empty topic the handler renders the warning (and the closing banner) and
  leaves the process as it was: nothing is created, nothing is submitted to the engine
  and no error message appears, whatever the external libraries would do. A call of
  \<open>run_research_pipeline\<close> always leaves such a mark, a submission to the engine or an
  error message, so that the pipeline was not entered.
\<close>

theorem empty_topic_warns_only:
  "start_research lib (g\<lparr>page_topic := []\<rparr>) s =
     s\<lparr>rendered := rendered s
         @ [Warning ''Please enter the research topic'', Success research_complete]\<rparr>
   \<and> proc (start_research lib (g\<lparr>page_topic := []\<rparr>) s) = proc s
   \<and> length (submitted (proc s0)) + length (filter is_Error (rendered s0))
       < length (submitted (proc (snd (run_research_pipeline lib g topic n a fmt s0))))
         + length (filter is_Error (rendered (snd (run_research_pipeline lib g topic n a fmt s0))))"
proof -
  have 1: "start_research lib (g\<lparr>page_topic := []\<rparr>) s =
     s\<lparr>rendered := rendered s
         @ [Warning ''Please enter the research topic'', Success research_complete]\<rparr>"
    by (simp add: start_research_no_topic)
  obtain res p1 where b: "pipeline_body lib g topic n a fmt (proc s0) = (res, p1)"
    by (cases "pipeline_body lib g topic n a fmt (proc s0)")
  have 3: "length (submitted (proc s0)) + length (filter is_Error (rendered s0))
       < length (submitted (proc (snd (run_research_pipeline lib g topic n a fmt s0))))
         + length (filter is_Error (rendered (snd (run_research_pipeline lib g topic n a fmt s0))))"
  proof (cases res)
    case (Inl e)
    have "length (submitted (proc s0)) \<le> length (submitted p1)"
      using pipeline_body_submitted_le [of "proc s0" lib g topic n a fmt] b by simp
    then show ?thesis
      using b Inl by (simp add: run_research_pipeline_Inl)
  next
    case (Inr r)
    then show ?thesis
      using b pipeline_body_Inr_submitted [of lib g topic n a fmt "proc s0" r p1]
      by (simp add: run_research_pipeline_Inr)
  qed
  from 1 3 show ?thesis by simp
qed

text \<open>
  C5, as the code has it. In a run with a topic in which the body of the try raises an
  exception with description \<open>d\<close>, \<open>run_research_pipeline\<close> shows the message
  "Error: d" and returns \<open>None\<close>; the handler renders the spinner, then the error
  message, then the divider, then the "Powered by" footer, in this order; what follows
  holds no error message and no markdown block, so that exactly one error message and
  neither the report heading nor the report block is rendered.
\<close>

theorem failure_shows_one_error:
  assumes "page_topic g \<noteq> []"
    and "pipeline_body lib g (page_topic g) (page_include_news g) (page_include_academic g)
           (page_output_format g) (proc s) = (Inl (Exception d), p1)"
  shows "run_research_pipeline lib g (page_topic g) (page_include_news g)
           (page_include_academic g) (page_output_format g) s =
           (None, s\<lparr>proc := p1, rendered := rendered s @ [Error (''Error: '' @ d)]\<rparr>)
     \<and> (\<exists>new rest. rendered (start_research lib g s) = rendered s @ new
          \<and> new = [Spinner launching, Error (''Error: '' @ d), Divider,
                   Markdown powered_by True] @ rest
          \<and> filter is_Error rest = []
          \<and> filter is_Markdown rest = []
          \<and> filter is_Error new = [Error (''Error: '' @ d)]
          \<and> Markdown ''## Research Report'' False \<notin> set new
          \<and> filter is_Markdown new = [Markdown powered_by True]
          \<and> Divider \<in> set new)"
proof -
  have 1: "run_research_pipeline lib g (page_topic g) (page_include_news g)
           (page_include_academic g) (page_output_format g) s =
           (None, s\<lparr>proc := p1, rendered := rendered s @ [Error (''Error: '' @ d)]\<rparr>)"
    using run_research_pipeline_Inl [OF assms(2)] by simp
  let ?rest = "[Success research_complete]"
  let ?new = "[Spinner launching, Error (''Error: '' @ d), Divider,
               Markdown powered_by True] @ ?rest"
  have "rendered (start_research lib g s) = rendered s @ ?new"
    by (simp add: start_research_topic [OF assms])
  moreover have "filter is_Error ?rest = []" by simp
  moreover have "filter is_Markdown ?rest = []" by simp
  moreover have "filter is_Error ?new = [Error (''Error: '' @ d)]" by simp
  moreover have "Markdown ''## Research Report'' False \<notin> set ?new"
    by (simp add: powered_by_def)
  moreover have "filter is_Markdown ?new = [Markdown powered_by True]" by simp
  moreover have "Divider \<in> set ?new" by simp
  ultimately show ?thesis using 1 by blast
qed

text \<open>An instance: a first run in which the engine raises on submission.\<close>

theorem failure_shows_one_error_witness:
  "page_topic demo_page \<noteq> []
   \<and> pipeline_body failing_libs demo_page (page_topic demo_page) (page_include_news demo_page)
       (page_include_academic demo_page) (page_output_format demo_page) (proc fresh_app) =
       (Inl (Exception ''rate limit''),
        warm_process\<lparr>submitted := [(demo_crew, [(''topic'', ''Quantum Computing Advances 2024'')])]\<rparr>)
   \<and> run_research_pipeline failing_libs demo_page (page_topic demo_page)
       (page_include_news demo_page) (page_include_academic demo_page)
       (page_output_format demo_page) fresh_app =
       (None, fresh_app\<lparr>proc := warm_process\<lparr>submitted :=
                 [(demo_crew, [(''topic'', ''Quantum Computing Advances 2024'')])]\<rparr>,
               rendered := rendered fresh_app @ [Error (''Error: '' @ ''rate limit'')]\<rparr>)"
proof -
  have t: "page_topic demo_page \<noteq> []"
    by (simp add: demo_page_def)
  have b: "pipeline_body failing_libs demo_page (page_topic demo_page)
       (page_include_news demo_page) (page_include_academic demo_page)
       (page_output_format demo_page) (proc fresh_app) =
       (Inl (Exception ''rate limit''),
        warm_process\<lparr>submitted := [(demo_crew, [(''topic'', ''Quantum Computing Advances 2024'')])]\<rparr>)"
    by (simp add: demo_defs call_defs)
  note r = failure_shows_one_error [OF t b, THEN conjunct1]
  show ?thesis
    using t b r by (simp only: simp_thms)
qed

text \<open>
  C5 as stated does not hold: after the error message of a failed run the handler goes
  on rendering (lines 141-144).
\<close>

theorem failure_still_renders:
  "rendered (start_research failing_libs demo_page fresh_app) =
     [Spinner launching, Error ''Error: rate limit'', Divider, Markdown powered_by True,
      Success research_complete]"
  by (simp add: demo_defs call_defs render_defs)

text \<open>
  C10. Every press of the button ends with the banner "Research complete!", on the
  warning path, after a failed run and after a successful one: what the handler renders
  is always some elements followed by the success banner.
\<close>

theorem success_banner_always:
  "\<exists>new. rendered (start_research lib g s) = rendered s @ new @ [Success research_complete]"
proof (cases "page_topic g = []")
  case True
  then show ?thesis by (simp add: start_research_no_topic)
next
  case False
  obtain res p1 where b: "pipeline_body lib g (page_topic g) (page_include_news g)
      (page_include_academic g) (page_output_format g) (proc s) = (res, p1)"
    by (cases "pipeline_body lib g (page_topic g) (page_include_news g)
      (page_include_academic g) (page_output_format g) (proc s)")
  let ?mid = "case res of
      Inl e \<Rightarrow> [Error (''Error: '' @ str_of e)]
    | Inr r \<Rightarrow>
        if truthy lib r
        then [Markdown ''## Research Report'' False, Markdown (report_output (str lib r)) True]
        else []"
  have "rendered (start_research lib g s) =
      rendered s @ ([Spinner launching] @ ?mid @ [Divider, Markdown powered_by True])
      @ [Success research_complete]"
    by (simp add: start_research_topic [OF False b])
  then show ?thesis by (rule exI)
qed

section \<open>The cached initializer\<close>

text \<open>
  C6. After a call of the initializer has returned a pair of handles, every later call
  with the same three arguments in the same process, after any number of further runs,
  returns the same pair (the same object identities) and leaves the process unchanged,
  so that no client is created again and the entry is never dropped; a later call with
  a different argument triple that returns, returns a pair of other objects.
\<close>

theorem initialize_tools_cached:
  assumes ok: "cache_ok p"
    and first: "initialize_tools lib api_key search_api_key model_name p = (Inr (llm, tool), p1)"
  shows "initialize_tools lib2 api_key search_api_key model_name
           (proc (presses rs \<lparr>proc = p1, rendered = ui\<rparr>)) =
           (Inr (llm, tool), proc (presses rs \<lparr>proc = p1, rendered = ui\<rparr>))
     \<and> (\<forall>k2 s2 m2 llm2 tool2 p2.
          (k2, s2, m2) \<noteq> (api_key, search_api_key, model_name) \<longrightarrow>
          initialize_tools lib2 k2 s2 m2 (proc (presses rs \<lparr>proc = p1, rendered = ui\<rparr>)) =
            (Inr (llm2, tool2), p2) \<longrightarrow>
          llm_id llm2 \<noteq> llm_id llm \<and> tool_id tool2 \<noteq> tool_id tool)"
proof -
  let ?key = "(api_key, search_api_key, model_name)"
  let ?pl = "proc (presses rs \<lparr>proc = p1, rendered = ui\<rparr>)"
  have "cache_ok (snd (initialize_tools lib api_key search_api_key model_name p))"
    using ok by (rule initialize_tools_cache_ok)
  then have ok1: "cache_ok p1"
    by (simp add: first)
  have kept1: "resource_cache p1 ?key = Some (llm, tool)"
    using first by (rule initialize_tools_stores)
  have okl: "cache_ok ?pl"
    using presses_cache_ok [of "\<lparr>proc = p1, rendered = ui\<rparr>" rs] ok1 by simp
  have keptl: "resource_cache ?pl ?key = Some (llm, tool)"
    using presses_keeps [of "\<lparr>proc = p1, rendered = ui\<rparr>" ?key "(llm, tool)" rs] kept1 by simp
  have again: "initialize_tools lib2 api_key search_api_key model_name ?pl = (Inr (llm, tool), ?pl)"
    using keptl by (rule initialize_tools_hit)
  have other: "llm_id llm2 \<noteq> llm_id llm \<and> tool_id tool2 \<noteq> tool_id tool"
    if ne: "(k2, s2, m2) \<noteq> ?key"
      and call: "initialize_tools lib2 k2 s2 m2 ?pl = (Inr (llm2, tool2), p2)"
    for k2 s2 m2 llm2 tool2 p2
  proof -
    have a: "resource_cache p2 (k2, s2, m2) = Some (llm2, tool2)"
      using call by (rule initialize_tools_stores)
    have "resource_cache (snd (initialize_tools lib2 k2 s2 m2 ?pl)) ?key = Some (llm, tool)"
      using keptl by (rule initialize_tools_keeps)
    then have b: "resource_cache p2 ?key = Some (llm, tool)"
      by (simp add: call)
    have "cache_ok (snd (initialize_tools lib2 k2 s2 m2 ?pl))"
      using okl by (rule initialize_tools_cache_ok)
    then have "cache_ok p2"
      by (simp add: call)
    with a b ne show ?thesis
      unfolding cache_ok_def by blast
  qed
  from again other show ?thesis by blast
qed

text \<open>
  An instance: the first call in a fresh process, then a failed run, then a call with the
  same arguments and a call with another model name.
\<close>

theorem initialize_tools_cached_witness:
  "cache_ok fresh_process
   \<and> initialize_tools reliable_libs ''sk-demo'' ''serper-demo'' ''gpt-4o-mini'' fresh_process =
       (Inr (demo_llm, demo_tool), warm_process)
   \<and> initialize_tools failing_libs ''sk-demo'' ''serper-demo'' ''gpt-4o-mini''
       (proc (presses [(failing_libs, demo_page)] \<lparr>proc = warm_process, rendered = []\<rparr>)) =
       (Inr (demo_llm, demo_tool),
        proc (presses [(failing_libs, demo_page)] \<lparr>proc = warm_process, rendered = []\<rparr>))
   \<and> fst (initialize_tools failing_libs ''sk-demo'' ''serper-demo'' ''o3-mini''
       (proc (presses [(failing_libs, demo_page)] \<lparr>proc = warm_process, rendered = []\<rparr>))) =
       Inr (\<lparr>llm_id = 2, model = ''o3-mini'', temperature = 3 / 10,
              llm_openai_api_key = ''sk-demo''\<rparr>,
            \<lparr>tool_id = 3, tool_api_key = ''serper-demo''\<rparr>)
   \<and> (2::nat) \<noteq> llm_id demo_llm \<and> (3::nat) \<noteq> tool_id demo_tool"
proof -
  have ok: "cache_ok fresh_process"
    by (simp add: cache_ok_def fresh_process_def)
  have first: "initialize_tools reliable_libs ''sk-demo'' ''serper-demo'' ''gpt-4o-mini''
      fresh_process = (Inr (demo_llm, demo_tool), warm_process)"
    by (simp add: demo_defs call_defs)
  let ?llm2 = "\<lparr>llm_id = 2, model = ''o3-mini'', temperature = 3 / 10,
              llm_openai_api_key = ''sk-demo''\<rparr>"
  let ?tool2 = "\<lparr>tool_id = 3, tool_api_key = ''serper-demo''\<rparr>"
  let ?later = "proc (presses [(failing_libs, demo_page)] \<lparr>proc = warm_process, rendered = []\<rparr>)"
  have f: "fst (initialize_tools failing_libs ''sk-demo'' ''serper-demo'' ''o3-mini'' ?later) =
      Inr (?llm2, ?tool2)"
    by (simp add: demo_defs call_defs render_defs)
  have second: "initialize_tools failing_libs ''sk-demo'' ''serper-demo'' ''o3-mini'' ?later =
      (Inr (?llm2, ?tool2),
       snd (initialize_tools failing_libs ''sk-demo'' ''serper-demo'' ''o3-mini'' ?later))"
    by (simp only: prod_eq_iff fst_conv snd_conv f simp_thms)
  have ne: "(''sk-demo'', ''serper-demo'', ''o3-mini'') \<noteq>
      (''sk-demo'', ''serper-demo'', ''gpt-4o-mini'')"
    by simp
  note t = initialize_tools_cached [OF ok first, of failing_libs "[(failing_libs, demo_page)]" "[]"]
  have again: "initialize_tools failing_libs ''sk-demo'' ''serper-demo'' ''gpt-4o-mini'' ?later =
       (Inr (demo_llm, demo_tool), ?later)"
    using t by (rule conjunct1)
  have "llm_id ?llm2 \<noteq> llm_id demo_llm \<and> tool_id ?tool2 \<noteq> tool_id demo_tool"
    using t [THEN conjunct2, rule_format, OF ne second] .
  then have apart: "(2::nat) \<noteq> llm_id demo_llm \<and> (3::nat) \<noteq> tool_id demo_tool"
    by simp
  show ?thesis
    using ok first again f apart by (simp only: simp_thms)
qed

end
